theory Spec2Isabelle
  imports
    Main
    "HOL-Library.Sublist"
    "HOL-Library.AList"
    "HOL-Library.Char_ord"
    "HOL-Library.List_Lexorder"
begin

section \<open>Composed schemas (oneOf / anyOf) of swagger-marshmallow-codegen\<close>

text \<open>
  A shallow embedding of \<^verbatim>\<open>swagger_marshmallow_codegen/schema/composed.py\<close>.

  Python dictionaries are maps; \<^verbatim>\<open>a.update(b)\<close> is \<open>a ++ b\<close> (the keys of \<open>b\<close> win),
  \<^verbatim>\<open>not d\<close> on a dictionary is \<open>d = Map.empty\<close>, \<^verbatim>\<open>k in d\<close> is \<open>d k \<noteq> None\<close>.
  The \<^verbatim>\<open>OrderedDict\<close> of \<^verbatim>\<open>signature_mapping\<close> is an association list, because
  its iteration order decides the order of the candidates.
  Every \<^verbatim>\<open>raise\<close> the code can reach is a value \<open>Inl e\<close> of a sum type.

  The single-variant schemas of marshmallow are external: a schema is known by its class
  and by its declared fields, and its \<^verbatim>\<open>dump\<close> and \<^verbatim>\<open>load\<close> are parameters
  \<open>dump s data\<close> and \<open>load s data partial\<close> that return a pair of a fresh result
  dictionary and an error dictionary (the schemas are built with \<^verbatim>\<open>strict=False\<close>, so
  they report errors in the pair and do not raise).
\<close>

subsection \<open>Data\<close>

text \<open>
  Payload values, as JSON has them: strings, integers, booleans, \<^verbatim>\<open>None\<close>, lists and
  dictionaries. Lists and dictionaries are the values Python cannot hash.
\<close>

datatype val =
    Str string
  | Num int
  | Bool bool
  | Null
  | Arr "val list"
  | Obj "(string \<times> val) list"

fun hashable :: "val \<Rightarrow> bool" where
  "hashable (Arr xs) = False"
| "hashable (Obj kvs) = False"
| "hashable v = True"

type_synonym payload = "string \<rightharpoonup> val"

text \<open>An error dictionary: field name (or \<^verbatim>\<open>_schema\<close>) to its list of messages.\<close>

type_synonym errs = "string \<rightharpoonup> string list"

text \<open>A class object: its identity and its \<^verbatim>\<open>__name__\<close>.\<close>

datatype cls = Cls (cls_id: nat) (cls_name: string)

record field =
  required :: bool

record schema =
  schema_class :: cls
  schema_fields :: "(string \<times> field) list"

text \<open>\<^verbatim>\<open>s.__class__.__name__\<close>\<close>

definition class_name :: "schema \<Rightarrow> string" where
  "class_name s = cls_name (schema_class s)"

text \<open>
  The key a \<^verbatim>\<open>KeyError\<close> carries is a string or payload value (a missing dictionary
  key) or a class (a class missing from the class-to-schema dictionary).
\<close>

datatype key = ValKey val | ClsKey cls

datatype error = KeyError key | TypeError | IndexError

text \<open>
  The \<^verbatim>\<open>discriminator\<close> option: \<^verbatim>\<open>ComposedOpts\<close> has checked that
  \<^verbatim>\<open>fieldname\<close> is there; \<^verbatim>\<open>mapping\<close> is optional, and its items are kept in
  the order of iteration.
\<close>

record discriminator =
  fieldname :: string
  mapping :: "(string \<times> cls) list option"

record SchemaFinder =
  schemas :: "schema list"
  discriminator_name :: "string option"
  discriminator_mapping :: "(string \<rightharpoonup> schema) option"

text \<open>What \<^verbatim>\<open>final_check\<close> reads of a \<^verbatim>\<open>OneOfSchema\<close> or \<^verbatim>\<open>AnyOfSchema\<close> instance.\<close>

record OneOfSchema =
  self_schemas :: "schema list"
  include_self :: bool

record AnyOfSchema =
  any_schemas :: "schema list"

subsection \<open>Formatting a list of names\<close>

text \<open>
  \<^verbatim>\<open>"{}".format(names)\<close> prints the \<^verbatim>\<open>repr\<close> of a list of strings. The names are
  class names and the literal \<^verbatim>\<open>self\<close>: identifiers, whose \<^verbatim>\<open>repr\<close> is the name
  between single quotes, with nothing to escape.
\<close>

definition py_repr_str :: "string \<Rightarrow> string" where
  "py_repr_str s = [CHR 0x27] @ s @ [CHR 0x27]"

fun join_comma :: "string list \<Rightarrow> string" where
  "join_comma [] = []"
| "join_comma [x] = x"
| "join_comma (x # y # zs) = x @ '', '' @ join_comma (y # zs)"

definition py_repr_list :: "string list \<Rightarrow> string" where
  "py_repr_list names = ''['' @ join_comma (map py_repr_str names) @ '']''"

subsection \<open>SchemaFinder\<close>

text \<open>\<^verbatim>\<open>{s.__class__.__name__: s for s in schemas}\<close>: a later schema replaces an earlier one.\<close>

fun by_class_name :: "(string \<rightharpoonup> schema) \<Rightarrow> schema list \<Rightarrow> (string \<rightharpoonup> schema)" where
  "by_class_name d [] = d"
| "by_class_name d (s # ss) = by_class_name (d(class_name s \<mapsto> s)) ss"

text \<open>\<^verbatim>\<open>{s.__class__: s for s in schemas}\<close>\<close>

fun by_class :: "(cls \<rightharpoonup> schema) \<Rightarrow> schema list \<Rightarrow> (cls \<rightharpoonup> schema)" where
  "by_class d [] = d"
| "by_class d (s # ss) = by_class (d(schema_class s \<mapsto> s)) ss"

text \<open>
  \<^verbatim>\<open>{name: mapping[cls] for name, cls in discriminator["mapping"].items()}\<close>:
  \<^verbatim>\<open>mapping[cls]\<close> raises \<^verbatim>\<open>KeyError\<close> for a class that no schema has.
\<close>

fun named_mapping ::
  "(cls \<rightharpoonup> schema) \<Rightarrow> (string \<rightharpoonup> schema) \<Rightarrow> (string \<times> cls) list \<Rightarrow> error + (string \<rightharpoonup> schema)" where
  "named_mapping m d [] = Inr d"
| "named_mapping m d ((name, c) # items) =
     (case m c of
        None \<Rightarrow> Inl (KeyError (ClsKey c))
      | Some s \<Rightarrow> named_mapping m (d(name \<mapsto> s)) items)"

definition SchemaFinder_init :: "schema list \<Rightarrow> discriminator option \<Rightarrow> error + SchemaFinder" where
  "SchemaFinder_init ss disc =
     (case disc of
        None \<Rightarrow>
          Inr \<lparr>schemas = ss, discriminator_name = None, discriminator_mapping = None\<rparr>
      | Some d \<Rightarrow>
          (case mapping d of
             None \<Rightarrow>
               Inr \<lparr>schemas = ss, discriminator_name = Some (fieldname d),
                    discriminator_mapping = Some (by_class_name Map.empty ss)\<rparr>
           | Some items \<Rightarrow>
               (case named_mapping (by_class Map.empty ss) Map.empty items of
                  Inl e \<Rightarrow> Inl e
                | Inr dm \<Rightarrow>
                    Inr \<lparr>schemas = ss, discriminator_name = Some (fieldname d),
                         discriminator_mapping = Some dm\<rparr>)))"

text \<open>\<^verbatim>\<open>tuple(sorted([name for name, f in s.fields.items() if f.required]))\<close>\<close>

definition signature :: "schema \<Rightarrow> string list" where
  "signature s = sort (map fst (filter (\<lambda>nf. required (snd nf)) (schema_fields s)))"

text \<open>
  The loop \<^verbatim>\<open>d[sig] = s\<close> over an \<^verbatim>\<open>OrderedDict\<close>: a new key is appended, a key that is
  already there keeps its place and gets the new value.
\<close>

fun signature_loop ::
  "(string list \<times> schema) list \<Rightarrow> schema list \<Rightarrow> (string list \<times> schema) list" where
  "signature_loop d [] = d"
| "signature_loop d (s # ss) = signature_loop (AList.update (signature s) s d) ss"

definition signature_mapping :: "SchemaFinder \<Rightarrow> (string list \<times> schema) list" where
  "signature_mapping f = signature_loop [] (schemas f)"

text \<open>\<^verbatim>\<open>all(k in data for k in signature)\<close>\<close>

definition has_all_keys :: "payload \<Rightarrow> string list \<Rightarrow> bool" where
  "has_all_keys data sig = list_all (\<lambda>k. data k \<noteq> None) sig"

text \<open>
  \<^verbatim>\<open>(self.discriminator_mapping[data[self.discriminator_name]], )\<close>: the inner
  subscript raises \<^verbatim>\<open>KeyError\<close> with the field name when the payload lacks it. The
  outer one raises \<^verbatim>\<open>TypeError\<close> when the mapping is \<^verbatim>\<open>None\<close> or the value cannot
  be hashed (a list or a dictionary), and \<^verbatim>\<open>KeyError\<close> with the value when it is not a
  key. The keys of the mapping are strings, so a value that is not a string is never
  found.
\<close>

definition discriminator_lookup ::
  "SchemaFinder \<Rightarrow> string \<Rightarrow> payload \<Rightarrow> error + schema list" where
  "discriminator_lookup f name data =
     (case data name of
        None \<Rightarrow> Inl (KeyError (ValKey (Str name)))
      | Some v \<Rightarrow>
          (case discriminator_mapping f of
             None \<Rightarrow> Inl TypeError
           | Some dm \<Rightarrow>
               (if \<not> hashable v then Inl TypeError
                else
                  (case (case v of Str k \<Rightarrow> dm k | _ \<Rightarrow> None) of
                     None \<Rightarrow> Inl (KeyError (ValKey v))
                   | Some s \<Rightarrow> Inr [s]))))"

definition find_matched_schemas :: "SchemaFinder \<Rightarrow> payload \<Rightarrow> error + schema list" where
  "find_matched_schemas f data =
     (case discriminator_name f of
        Some name \<Rightarrow> discriminator_lookup f name data
      | None \<Rightarrow>
          Inr (map snd (filter (\<lambda>sig_s. has_all_keys data (fst sig_s)) (signature_mapping f))))"

definition find_schemas :: "SchemaFinder \<Rightarrow> payload \<Rightarrow> error + schema list" where
  "find_schemas f data =
     (case discriminator_name f of
        Some name \<Rightarrow> discriminator_lookup f name data
      | None \<Rightarrow> Inr (schemas f))"

subsection \<open>final_check\<close>

text \<open>\<^verbatim>\<open>for other in others: acc.update(other)\<close>\<close>

fun update_all :: "payload \<Rightarrow> payload list \<Rightarrow> payload" where
  "update_all acc [] = acc"
| "update_all acc (other # others) = update_all (acc ++ other) others"

text \<open>
  The loop over \<^verbatim>\<open>enumerate(errors)\<close> that collects \<^verbatim>\<open>schemas[i].__class__.__name__\<close>
  for every empty \<^verbatim>\<open>err\<close>; \<^verbatim>\<open>schemas[i]\<close> raises \<^verbatim>\<open>IndexError\<close> past the end.
\<close>

fun satisfied_loop ::
  "schema list \<Rightarrow> nat \<Rightarrow> errs list \<Rightarrow> string list \<Rightarrow> error + string list" where
  "satisfied_loop ss i [] satisfied = Inr satisfied"
| "satisfied_loop ss i (err # rest) satisfied =
     (if err = Map.empty then
        (if i < length ss then satisfied_loop ss (Suc i) rest (satisfied @ [class_name (ss ! i)])
         else Inl IndexError)
      else satisfied_loop ss (Suc i) rest satisfied)"

text \<open>\<^verbatim>\<open>data if not results else results[0]\<close>, after \<^verbatim>\<open>results[0]\<close> took every other result.\<close>

definition merged_fallback :: "payload \<Rightarrow> payload list \<Rightarrow> payload" where
  "merged_fallback data results =
     (case results of [] \<Rightarrow> data | r # rs \<Rightarrow> update_all r rs)"

definition OneOfSchema_final_check ::
  "OneOfSchema \<Rightarrow> payload \<Rightarrow> schema list \<Rightarrow> payload list \<Rightarrow> errs list \<Rightarrow> payload list
    \<Rightarrow> error + (payload \<times> errs)" where
  "OneOfSchema_final_check self data ss results errors compacted =
     (if length compacted = 1 then Inr (hd compacted, Map.empty)
      else if length compacted > 1 then
        (case satisfied_loop ss 0 errors [] of
           Inl e \<Rightarrow> Inl e
         | Inr satisfied \<Rightarrow>
             Inr (update_all (hd compacted) (tl compacted),
                  [''_schema'' \<mapsto>
                     [''satisfied both of '' @ py_repr_list satisfied @ '', not only one'']]))
      else
        (let candidates = map class_name (self_schemas self)
                            @ (if include_self self then [''self''] else [])
         in Inr (merged_fallback data results,
                 [''_schema'' \<mapsto> [''not matched, any of '' @ py_repr_list candidates]])))"

definition AnyOfSchema_final_check ::
  "AnyOfSchema \<Rightarrow> payload \<Rightarrow> schema list \<Rightarrow> payload list \<Rightarrow> errs list \<Rightarrow> payload list
    \<Rightarrow> error + (payload \<times> errs)" where
  "AnyOfSchema_final_check self data ss results errors compacted =
     (if length compacted \<ge> 1 then Inr (update_all (hd compacted) (tl compacted), Map.empty)
      else
        Inr (merged_fallback data results,
             [''_schema'' \<mapsto>
                [''not matched, any of '' @ py_repr_list (map class_name (any_schemas self))]]))"

subsection \<open>run_many\<close>

fun run_many_loop ::
  "nat \<Rightarrow> 'a list \<Rightarrow> ('a \<Rightarrow> error + ('r \<times> errs)) \<Rightarrow> 'r list \<Rightarrow> (nat \<rightharpoonup> errs)
    \<Rightarrow> error + ('r list \<times> (nat \<rightharpoonup> errs))" where
  "run_many_loop i [] fn results errors = Inr (results, errors)"
| "run_many_loop i (d # ds) fn results errors =
     (case fn d of
        Inl e \<Rightarrow> Inl e
      | Inr (r, err) \<Rightarrow>
          run_many_loop (Suc i) ds fn (results @ [r])
            (if err \<noteq> Map.empty then errors(i \<mapsto> err) else errors))"

definition run_many ::
  "'a list \<Rightarrow> ('a \<Rightarrow> error + ('r \<times> errs)) \<Rightarrow> error + ('r list \<times> (nat \<rightharpoonup> errs))" where
  "run_many data fn = run_many_loop 0 data fn [] Map.empty"

subsection \<open>The per-item marshaller and unmarshaller\<close>

text \<open>
  The loop shared by \<^verbatim>\<open>_marshall_one\<close> and \<^verbatim>\<open>_unmarshall_one\<close>: \<open>run s\<close> is
  \<^verbatim>\<open>s.dump(data, update_fields=False)\<close> or \<^verbatim>\<open>s.load(data, partial=partial)\<close>.
\<close>

fun candidates_loop ::
  "(schema \<Rightarrow> payload \<times> errs) \<Rightarrow> schema list \<Rightarrow> payload list \<Rightarrow> errs list \<Rightarrow> payload list
    \<Rightarrow> payload list \<times> errs list \<times> payload list" where
  "candidates_loop run [] results errors compacted = (results, errors, compacted)"
| "candidates_loop run (s # ss) results errors compacted =
     (case run s of
        (r, err) \<Rightarrow>
          candidates_loop run ss (results @ [r]) (errors @ [err])
            (if err = Map.empty then compacted @ [r] else compacted))"

type_synonym final_check =
  "payload \<Rightarrow> schema list \<Rightarrow> payload list \<Rightarrow> errs list \<Rightarrow> payload list \<Rightarrow> error + (payload \<times> errs)"

definition marshall_one ::
  "SchemaFinder \<Rightarrow> final_check \<Rightarrow> (schema \<Rightarrow> payload \<Rightarrow> payload \<times> errs) \<Rightarrow> payload
    \<Rightarrow> error + (payload \<times> errs)" where
  "marshall_one finder fc dump data =
     (case find_matched_schemas finder data of
        Inl e \<Rightarrow> Inl e
      | Inr ss \<Rightarrow>
          (case candidates_loop (\<lambda>s. dump s data) ss [] [] [] of
             (results, errors, compacted) \<Rightarrow> fc data ss results errors compacted))"

definition unmarshall_one ::
  "SchemaFinder \<Rightarrow> final_check \<Rightarrow> (schema \<Rightarrow> payload \<Rightarrow> bool \<Rightarrow> payload \<times> errs) \<Rightarrow> payload \<Rightarrow> bool
    \<Rightarrow> error + (payload \<times> errs)" where
  "unmarshall_one finder fc load data partial =
     (case find_schemas finder data of
        Inl e \<Rightarrow> Inl e
      | Inr ss \<Rightarrow>
          (case candidates_loop (\<lambda>s. load s data partial) ss [] [] [] of
             (results, errors, compacted) \<Rightarrow> fc data ss results errors compacted))"

subsection \<open>Merging the errors of the base schema (include_self)\<close>

text \<open>
  \<^verbatim>\<open>all(msg.startswith("not matched, any of") for msg in errors.get("_schema") or [])\<close>
\<close>

definition all_not_matched :: "errs \<Rightarrow> bool" where
  "all_not_matched errors =
     list_all (\<lambda>msg. prefix ''not matched, any of'' msg)
       (case errors ''_schema'' of None \<Rightarrow> [] | Some msgs \<Rightarrow> msgs)"

text \<open>
  \<open>self_errors\<close> is \<open>None\<close> when the base schema raised no \<^verbatim>\<open>ValidationError\<close>.
  \<^verbatim>\<open>errors.pop("_schema")\<close> raises \<^verbatim>\<open>KeyError\<close> when the key is not there.
\<close>

definition merge_errors_one_for_include_self :: "errs \<Rightarrow> errs option \<Rightarrow> error + errs" where
  "merge_errors_one_for_include_self errors self_errors =
     (case self_errors of
        Some se \<Rightarrow>
          (if \<not> all_not_matched errors then Inr (errors ++ se) else Inr errors)
      | None \<Rightarrow>
          (if errors = Map.empty then
             Inr (errors(''_schema'' \<mapsto> [''satisfied both of self and others, not only one'']))
           else if all_not_matched errors then
             (case errors ''_schema'' of
                None \<Rightarrow> Inl (KeyError (ValKey (Str ''_schema'')))
              | Some msgs \<Rightarrow> Inr (errors(''_schema'' := None)))
           else Inr errors))"

subsection \<open>Example schemas\<close>

text \<open>
  Concrete variants on which the theorems below are instantiated: \<open>ex_A\<close> requires
  \<^verbatim>\<open>x\<close>, \<open>ex_B\<close> requires \<^verbatim>\<open>y\<close>, and \<open>ex_A2\<close> is another class with the same
  required fields as \<open>ex_A\<close>.
\<close>

definition ex_A :: schema where
  "ex_A = \<lparr>schema_class = Cls 0 ''A'', schema_fields = [(''x'', \<lparr>required = True\<rparr>)]\<rparr>"

definition ex_B :: schema where
  "ex_B = \<lparr>schema_class = Cls 1 ''B'', schema_fields = [(''y'', \<lparr>required = True\<rparr>)]\<rparr>"

definition ex_A2 :: schema where
  "ex_A2 = \<lparr>schema_class = Cls 2 ''A2'',
            schema_fields = [(''x'', \<lparr>required = True\<rparr>), (''note'', \<lparr>required = False\<rparr>)]\<rparr>"

definition ex_Cat :: schema where
  "ex_Cat = \<lparr>schema_class = Cls 3 ''Cat'',
             schema_fields = [(''type'', \<lparr>required = True\<rparr>), (''name'', \<lparr>required = True\<rparr>)]\<rparr>"

definition ex_Dog :: schema where
  "ex_Dog = \<lparr>schema_class = Cls 4 ''Dog'',
             schema_fields = [(''type'', \<lparr>required = True\<rparr>), (''bark'', \<lparr>required = True\<rparr>)]\<rparr>"

text \<open>
  A stand-in for the external validator, used only to instantiate \<open>load\<close> and \<open>dump\<close>:
  the result keeps the declared fields that the payload has, and every required field
  that is missing is an error (unless \<open>partial\<close>).
\<close>

definition ex_result :: "schema \<Rightarrow> payload \<Rightarrow> payload" where
  "ex_result s data =
     map_of (List.map_filter (\<lambda>nf. map_option (Pair (fst nf)) (data (fst nf))) (schema_fields s))"

definition ex_missing :: "schema \<Rightarrow> payload \<Rightarrow> errs" where
  "ex_missing s data =
     map_of (map (\<lambda>nf. (fst nf, [''Missing data for required field.'']))
               (filter (\<lambda>nf. required (snd nf) \<and> data (fst nf) = None) (schema_fields s)))"

definition ex_load :: "schema \<Rightarrow> payload \<Rightarrow> bool \<Rightarrow> payload \<times> errs" where
  "ex_load s data partial = (ex_result s data, if partial then Map.empty else ex_missing s data)"

definition ex_dump :: "schema \<Rightarrow> payload \<Rightarrow> payload \<times> errs" where
  "ex_dump s data = (ex_result s data, ex_missing s data)"

text \<open>A \<^verbatim>\<open>load\<close> whose result also records the class of the schema under \<^verbatim>\<open>kind\<close>, so
  that the results of different schemas disagree on a key.\<close>

definition ex_tagged_load :: "schema \<Rightarrow> payload \<Rightarrow> bool \<Rightarrow> payload \<times> errs" where
  "ex_tagged_load s data partial =
     ((ex_result s data)(''kind'' \<mapsto> Str (class_name s)),
      if partial then Map.empty else ex_missing s data)"

text \<open>A \<^verbatim>\<open>dump\<close> that reports an invalid \<^verbatim>\<open>x\<close> on every payload.\<close>

definition ex_reject :: "schema \<Rightarrow> payload \<Rightarrow> payload \<times> errs" where
  "ex_reject s data = (ex_result s data, [''x'' \<mapsto> [''Not a valid string.'']])"

definition ex_finder :: "schema list \<Rightarrow> SchemaFinder" where
  "ex_finder ss = \<lparr>schemas = ss, discriminator_name = None, discriminator_mapping = None\<rparr>"

text \<open>Finders with the discriminator field \<^verbatim>\<open>type\<close>: the first without a
  \<^verbatim>\<open>mapping\<close> (the values are class names), the second with one.\<close>

definition ex_named_finder :: SchemaFinder where
  "ex_named_finder =
     \<lparr>schemas = [ex_Cat, ex_Dog], discriminator_name = Some ''type'',
      discriminator_mapping = Some [''Cat'' \<mapsto> ex_Cat, ''Dog'' \<mapsto> ex_Dog]\<rparr>"

definition ex_mapped_finder :: SchemaFinder where
  "ex_mapped_finder =
     \<lparr>schemas = [ex_Cat, ex_Dog], discriminator_name = Some ''type'',
      discriminator_mapping = Some [''cat'' \<mapsto> ex_Cat, ''dog'' \<mapsto> ex_Dog]\<rparr>"

text \<open>The per-item function of a batch: \<^verbatim>\<open>_unmarshall_one\<close> of a oneOf schema over
  \<open>ex_Cat\<close> and \<open>ex_Dog\<close> with the discriminator \<^verbatim>\<open>type\<close>.\<close>

definition ex_unmarshall :: "payload \<Rightarrow> error + (payload \<times> errs)" where
  "ex_unmarshall d =
     unmarshall_one ex_named_finder
       (OneOfSchema_final_check \<lparr>self_schemas = [ex_Cat, ex_Dog], include_self = False\<rparr>)
       ex_load d False"

section \<open>Properties\<close>

lemmas ex_defs =
  ex_A_def ex_B_def ex_A2_def ex_Cat_def ex_Dog_def ex_result_def ex_missing_def
  ex_load_def ex_dump_def ex_finder_def

subsection \<open>The loops in closed form\<close>

lemma candidates_loop_eq:
  "candidates_loop run ss results errors compacted =
     (results @ map (\<lambda>s. fst (run s)) ss,
      errors @ map (\<lambda>s. snd (run s)) ss,
      compacted @ map (\<lambda>s. fst (run s)) (filter (\<lambda>s. snd (run s) = Map.empty) ss))"
  by (induction ss arbitrary: results errors compacted) (auto split: prod.splits)

lemma update_all_append: "update_all acc (xs @ ys) = update_all (update_all acc xs) ys"
  by (induction xs arbitrary: acc) simp_all

lemma update_all_snoc: "update_all acc (xs @ [x]) = update_all acc xs ++ x"
  by (simp add: update_all_append)

lemma find_app:
  "List.find P (xs @ ys) = (case List.find P xs of None \<Rightarrow> List.find P ys | Some x \<Rightarrow> Some x)"
  by (induction xs) simp_all

text \<open>Later keys win: a key of the merged dictionary has the value of the last dictionary
  that holds it.\<close>

lemma update_all_lookup:
  "update_all acc others k =
     (case List.find (\<lambda>m. m k \<noteq> None) (rev others) of None \<Rightarrow> acc k | Some m \<Rightarrow> m k)"
proof (induction others rule: rev_induct)
  case Nil
  show ?case by simp
next
  case (snoc x xs)
  show ?case
  proof (cases "x k")
    case None
    then show ?thesis using snoc by (simp add: update_all_snoc map_add_def)
  next
    case (Some v)
    then show ?thesis by (simp add: update_all_snoc map_add_def)
  qed
qed

lemma filter_zip_map:
  "map fst (filter (\<lambda>p. P (snd p)) (zip xs (map f xs))) = filter (\<lambda>x. P (f x)) xs"
  by (induction xs) simp_all

lemma satisfied_loop_eq:
  "i + length errors \<le> length ss \<Longrightarrow>
   satisfied_loop ss i errors acc =
     Inr (acc @ map class_name (map fst (filter (\<lambda>p. snd p = Map.empty) (zip (drop i ss) errors))))"
proof (induction errors arbitrary: i acc)
  case Nil
  show ?case by simp
next
  case (Cons err rest)
  from Cons.prems have lt: "i < length ss" and le: "Suc i + length rest \<le> length ss" by simp_all
  have d: "drop i ss = ss ! i # drop (Suc i) ss" using lt by (simp add: Cons_nth_drop_Suc)
  show ?case using Cons.IH [OF le] lt by (simp add: d)
qed

lemma satisfied_loop_candidates:
  "satisfied_loop ss 0 (map (\<lambda>s. snd (run s)) ss) [] =
     Inr (map class_name (filter (\<lambda>s. snd (run s) = Map.empty) ss))"
  using satisfied_loop_eq [of 0 "map (\<lambda>s. snd (run s)) ss" ss "[]"]
        filter_zip_map [of "\<lambda>e. e = Map.empty" ss "\<lambda>s. snd (run s)"]
  by simp

subsection \<open>oneOf: exactly one successful candidate\<close>

text \<open>
  Claim C8. In a oneOf aggregation (the candidate loop followed by \<^verbatim>\<open>final_check\<close>) in
  which exactly one candidate \<open>s\<close> produced an empty error dictionary, \<^verbatim>\<open>final_check\<close>
  returns the value of that candidate unchanged, with an empty error dictionary (so no
  \<^verbatim>\<open>_schema\<close> key).
\<close>

theorem oneOf_exactly_one:
  assumes "candidates_loop run ss [] [] [] = (results, errors, compacted)"
      and "filter (\<lambda>s. snd (run s) = Map.empty) ss = [s]"
  shows "compacted = [fst (run s)] \<and>
         OneOfSchema_final_check self data ss results errors compacted
           = Inr (fst (run s), Map.empty)"
proof -
  from assms have "compacted = [fst (run s)]"
    by (simp add: candidates_loop_eq)
  then show ?thesis by (simp add: OneOfSchema_final_check_def)
qed

theorem oneOf_exactly_one_witness:
  "candidates_loop (\<lambda>s. ex_load s [''x'' \<mapsto> Num 1] False) [ex_A, ex_B] [] [] []
     = ([[''x'' \<mapsto> Num 1], Map.empty],
        [Map.empty, [''y'' \<mapsto> [''Missing data for required field.'']]],
        [[''x'' \<mapsto> Num 1]]) \<and>
   filter (\<lambda>s. snd (ex_load s [''x'' \<mapsto> Num 1] False) = Map.empty) [ex_A, ex_B] = [ex_A] \<and>
   OneOfSchema_final_check \<lparr>self_schemas = [ex_A, ex_B], include_self = False\<rparr>
       [''x'' \<mapsto> Num 1] [ex_A, ex_B]
       [[''x'' \<mapsto> Num 1], Map.empty]
       [Map.empty, [''y'' \<mapsto> [''Missing data for required field.'']]]
       [[''x'' \<mapsto> Num 1]]
     = Inr ([''x'' \<mapsto> Num 1], Map.empty)"
proof -
  have loop: "candidates_loop (\<lambda>s. ex_load s [''x'' \<mapsto> Num 1] False) [ex_A, ex_B] [] [] []
     = ([[''x'' \<mapsto> Num 1], Map.empty],
        [Map.empty, [''y'' \<mapsto> [''Missing data for required field.'']]],
        [[''x'' \<mapsto> Num 1]])"
    by (simp add: ex_defs)
  have one: "filter (\<lambda>s. snd (ex_load s [''x'' \<mapsto> Num 1] False) = Map.empty) [ex_A, ex_B] = [ex_A]"
    by (simp add: ex_defs)
  have val: "fst (ex_load ex_A [''x'' \<mapsto> Num 1] False) = [''x'' \<mapsto> Num 1]"
    by (simp add: ex_defs)
  from oneOf_exactly_one [OF loop one] loop one val show ?thesis by simp
qed

subsection \<open>oneOf: two or more successful candidates\<close>

text \<open>
  Claim C4. In a oneOf aggregation in which two or more candidates produced an empty error
  dictionary, \<^verbatim>\<open>final_check\<close> returns the first successful value updated in order by
  each later successful value (a key has the value of the last successful value holding
  it), and an error dictionary whose only key is \<^verbatim>\<open>_schema\<close>, with the single message
  \<^verbatim>\<open>satisfied both of {names}, not only one\<close>, where the names are the class names of
  exactly the candidates whose errors were empty, in candidate order.
\<close>

theorem oneOf_ambiguous:
  assumes "candidates_loop run ss [] [] [] = (results, errors, compacted)"
      and "length (filter (\<lambda>s. snd (run s) = Map.empty) ss) > 1"
  shows "compacted = map (\<lambda>s. fst (run s)) (filter (\<lambda>s. snd (run s) = Map.empty) ss) \<and>
         OneOfSchema_final_check self data ss results errors compacted =
           Inr (update_all (hd compacted) (tl compacted),
                [''_schema'' \<mapsto>
                   [''satisfied both of ''
                      @ py_repr_list (map class_name (filter (\<lambda>s. snd (run s) = Map.empty) ss))
                      @ '', not only one'']]) \<and>
         (\<forall>k. update_all (hd compacted) (tl compacted) k =
                (case List.find (\<lambda>m. m k \<noteq> None) (rev compacted) of
                   None \<Rightarrow> None | Some m \<Rightarrow> m k))"
proof -
  let ?ok = "filter (\<lambda>s. snd (run s) = Map.empty) ss"
  from assms(1) have c: "compacted = map (\<lambda>s. fst (run s)) ?ok"
    and e: "errors = map (\<lambda>s. snd (run s)) ss"
    by (simp_all add: candidates_loop_eq)
  from c assms(2) have len: "length compacted > 1" by simp
  have fc: "OneOfSchema_final_check self data ss results errors compacted =
           Inr (update_all (hd compacted) (tl compacted),
                [''_schema'' \<mapsto>
                   [''satisfied both of '' @ py_repr_list (map class_name ?ok) @ '', not only one'']])"
    using len by (simp add: OneOfSchema_final_check_def e satisfied_loop_candidates)
  have look: "update_all (hd compacted) (tl compacted) k =
                (case List.find (\<lambda>m. m k \<noteq> None) (rev compacted) of
                   None \<Rightarrow> None | Some m \<Rightarrow> m k)" for k
  proof -
    from len obtain v vs where vs: "compacted = v # vs" by (cases compacted) auto
    show ?thesis
      by (cases "v k") (auto simp: vs update_all_lookup find_app split: option.splits)
  qed
  from c fc look show ?thesis by blast
qed

theorem oneOf_ambiguous_witness:
  "candidates_loop (\<lambda>s. ex_load s [''x'' \<mapsto> Num 1, ''y'' \<mapsto> Num 2] False) [ex_A, ex_B] [] [] []
     = ([[''x'' \<mapsto> Num 1], [''y'' \<mapsto> Num 2]], [Map.empty, Map.empty],
        [[''x'' \<mapsto> Num 1], [''y'' \<mapsto> Num 2]]) \<and>
   length (filter (\<lambda>s. snd (ex_load s [''x'' \<mapsto> Num 1, ''y'' \<mapsto> Num 2] False) = Map.empty)
             [ex_A, ex_B]) > 1 \<and>
   OneOfSchema_final_check \<lparr>self_schemas = [ex_A, ex_B], include_self = False\<rparr>
       [''x'' \<mapsto> Num 1, ''y'' \<mapsto> Num 2] [ex_A, ex_B]
       [[''x'' \<mapsto> Num 1], [''y'' \<mapsto> Num 2]] [Map.empty, Map.empty]
       [[''x'' \<mapsto> Num 1], [''y'' \<mapsto> Num 2]]
     = Inr ([''x'' \<mapsto> Num 1, ''y'' \<mapsto> Num 2],
            [''_schema'' \<mapsto> [''satisfied both of ['A', 'B'], not only one'']])"
proof -
  have loop: "candidates_loop (\<lambda>s. ex_load s [''x'' \<mapsto> Num 1, ''y'' \<mapsto> Num 2] False)
                [ex_A, ex_B] [] [] []
     = ([[''x'' \<mapsto> Num 1], [''y'' \<mapsto> Num 2]], [Map.empty, Map.empty],
        [[''x'' \<mapsto> Num 1], [''y'' \<mapsto> Num 2]])"
    by (simp add: ex_defs)
  have two: "length (filter (\<lambda>s. snd (ex_load s [''x'' \<mapsto> Num 1, ''y'' \<mapsto> Num 2] False) = Map.empty)
             [ex_A, ex_B]) > 1"
    by (simp add: ex_defs)
  have ok: "filter (\<lambda>s. snd (ex_load s [''x'' \<mapsto> Num 1, ''y'' \<mapsto> Num 2] False) = Map.empty)
             [ex_A, ex_B] = [ex_A, ex_B]"
    by (simp add: ex_defs)
  have names: "py_repr_list (map class_name [ex_A, ex_B]) = ''['A', 'B']''"
    by (simp add: py_repr_list_def py_repr_str_def class_name_def ex_defs)
  have fc: "OneOfSchema_final_check \<lparr>self_schemas = [ex_A, ex_B], include_self = False\<rparr>
       [''x'' \<mapsto> Num 1, ''y'' \<mapsto> Num 2] [ex_A, ex_B]
       [[''x'' \<mapsto> Num 1], [''y'' \<mapsto> Num 2]] [Map.empty, Map.empty]
       [[''x'' \<mapsto> Num 1], [''y'' \<mapsto> Num 2]]
     = Inr (update_all (hd [[''x'' \<mapsto> Num 1], [''y'' \<mapsto> Num 2]])
              (tl [[''x'' \<mapsto> Num 1], [''y'' \<mapsto> Num 2]]),
            [''_schema'' \<mapsto>
               [''satisfied both of ''
                  @ py_repr_list (map class_name
                      (filter (\<lambda>s. snd (ex_load s [''x'' \<mapsto> Num 1, ''y'' \<mapsto> Num 2] False)
                                    = Map.empty) [ex_A, ex_B]))
                  @ '', not only one'']])"
    by (rule conjunct1 [OF conjunct2 [OF oneOf_ambiguous [OF loop two]]])
  have "OneOfSchema_final_check \<lparr>self_schemas = [ex_A, ex_B], include_self = False\<rparr>
       [''x'' \<mapsto> Num 1, ''y'' \<mapsto> Num 2] [ex_A, ex_B]
       [[''x'' \<mapsto> Num 1], [''y'' \<mapsto> Num 2]] [Map.empty, Map.empty]
       [[''x'' \<mapsto> Num 1], [''y'' \<mapsto> Num 2]]
     = Inr ([''x'' \<mapsto> Num 1, ''y'' \<mapsto> Num 2],
            [''_schema'' \<mapsto> [''satisfied both of ['A', 'B'], not only one'']])"
    unfolding fc ok names by simp
  with loop two show ?thesis by (intro conjI)
qed

subsection \<open>oneOf: no successful candidate\<close>

text \<open>
  Claim C5. In a oneOf aggregation in which no candidate produced an empty error
  dictionary, \<^verbatim>\<open>final_check\<close> returns \<^verbatim>\<open>results[0]\<close> updated in order by every other
  result when there is a result and the payload itself otherwise, with the error
  \<^verbatim>\<open>_schema: ["not matched, any of {candidates}"]\<close>, where the candidates are the class
  names of all declared variants of the schema, followed by \<^verbatim>\<open>self\<close> exactly when
  \<^verbatim>\<open>include_self\<close> is set. Updating in order means: a key of the returned value has
  the value of the last result that holds it, and a key that no result holds is absent
  (when there is a result).
\<close>

theorem oneOf_no_match:
  assumes "candidates_loop run ss [] [] [] = (results, errors, compacted)"
      and "list_all (\<lambda>s. snd (run s) \<noteq> Map.empty) ss"
  shows "compacted = [] \<and> results = map (\<lambda>s. fst (run s)) ss \<and>
         OneOfSchema_final_check self data ss results errors compacted =
           Inr (if results = [] then data else update_all (hd results) (tl results),
                [''_schema'' \<mapsto>
                   [''not matched, any of ''
                      @ py_repr_list (map class_name (self_schemas self)
                                        @ (if include_self self then [''self''] else []))]]) \<and>
         (\<forall>k. (if results = [] then data else update_all (hd results) (tl results)) k =
                (case List.find (\<lambda>m. m k \<noteq> None) (rev results) of
                   None \<Rightarrow> (if results = [] then data k else None)
                 | Some m \<Rightarrow> m k))"
proof -
  from assms(2) have "filter (\<lambda>s. snd (run s) = Map.empty) ss = []"
    by (simp add: filter_empty_conv list_all_iff)
  with assms(1) have c: "compacted = []" and r: "results = map (\<lambda>s. fst (run s)) ss"
    by (simp_all add: candidates_loop_eq)
  have fc: "OneOfSchema_final_check self data ss results errors compacted =
           Inr (if results = [] then data else update_all (hd results) (tl results),
                [''_schema'' \<mapsto>
                   [''not matched, any of ''
                      @ py_repr_list (map class_name (self_schemas self)
                                        @ (if include_self self then [''self''] else []))]])"
    using c r
    by (cases ss) (simp_all add: OneOfSchema_final_check_def merged_fallback_def)
  have look: "(if results = [] then data else update_all (hd results) (tl results)) k =
                (case List.find (\<lambda>m. m k \<noteq> None) (rev results) of
                   None \<Rightarrow> (if results = [] then data k else None)
                 | Some m \<Rightarrow> m k)" for k
  proof (cases results)
    case Nil
    then show ?thesis by simp
  next
    case (Cons v vs)
    show ?thesis
      by (cases "v k") (auto simp: Cons update_all_lookup find_app split: option.splits)
  qed
  from c r fc look show ?thesis by blast
qed

theorem oneOf_no_match_witness:
  "candidates_loop (\<lambda>s. ex_tagged_load s [''name'' \<mapsto> Str ''Rex''] False)
       [ex_Cat, ex_Dog] [] [] []
     = ([[''name'' \<mapsto> Str ''Rex'', ''kind'' \<mapsto> Str ''Cat''], [''kind'' \<mapsto> Str ''Dog'']],
        [ex_missing ex_Cat [''name'' \<mapsto> Str ''Rex''], ex_missing ex_Dog [''name'' \<mapsto> Str ''Rex'']],
        []) \<and>
   list_all (\<lambda>s. snd (ex_tagged_load s [''name'' \<mapsto> Str ''Rex''] False) \<noteq> Map.empty)
       [ex_Cat, ex_Dog] \<and>
   OneOfSchema_final_check \<lparr>self_schemas = [ex_Cat, ex_Dog], include_self = True\<rparr>
       [''name'' \<mapsto> Str ''Rex''] [ex_Cat, ex_Dog]
       [[''name'' \<mapsto> Str ''Rex'', ''kind'' \<mapsto> Str ''Cat''], [''kind'' \<mapsto> Str ''Dog'']]
       [ex_missing ex_Cat [''name'' \<mapsto> Str ''Rex''], ex_missing ex_Dog [''name'' \<mapsto> Str ''Rex'']]
       []
     = Inr ([''name'' \<mapsto> Str ''Rex'', ''kind'' \<mapsto> Str ''Dog''],
            [''_schema'' \<mapsto> [''not matched, any of ['Cat', 'Dog', 'self']'']])"
proof -
  have miss: "ex_missing ex_Cat [''name'' \<mapsto> Str ''Rex''] \<noteq> Map.empty"
             "ex_missing ex_Dog [''name'' \<mapsto> Str ''Rex''] \<noteq> Map.empty"
    by (simp_all add: ex_defs)
  have res: "(ex_result ex_Cat [''name'' \<mapsto> Str ''Rex''])(''kind'' \<mapsto> Str (class_name ex_Cat))
               = [''name'' \<mapsto> Str ''Rex'', ''kind'' \<mapsto> Str ''Cat'']"
            "(ex_result ex_Dog [''name'' \<mapsto> Str ''Rex''])(''kind'' \<mapsto> Str (class_name ex_Dog))
               = [''kind'' \<mapsto> Str ''Dog'']"
    by (simp_all add: class_name_def ex_defs)
  have loop: "candidates_loop (\<lambda>s. ex_tagged_load s [''name'' \<mapsto> Str ''Rex''] False)
                [ex_Cat, ex_Dog] [] [] []
     = ([[''name'' \<mapsto> Str ''Rex'', ''kind'' \<mapsto> Str ''Cat''], [''kind'' \<mapsto> Str ''Dog'']],
        [ex_missing ex_Cat [''name'' \<mapsto> Str ''Rex''], ex_missing ex_Dog [''name'' \<mapsto> Str ''Rex'']],
        [])"
    using miss by (simp add: ex_tagged_load_def res)
  have none: "list_all (\<lambda>s. snd (ex_tagged_load s [''name'' \<mapsto> Str ''Rex''] False) \<noteq> Map.empty)
                [ex_Cat, ex_Dog]"
    using miss by (simp add: ex_tagged_load_def)
  have names: "py_repr_list [class_name ex_Cat, class_name ex_Dog, ''self'']
                 = ''['Cat', 'Dog', 'self']''"
    by (simp add: py_repr_list_def py_repr_str_def class_name_def ex_defs)
  have "OneOfSchema_final_check \<lparr>self_schemas = [ex_Cat, ex_Dog], include_self = True\<rparr>
       [''name'' \<mapsto> Str ''Rex''] [ex_Cat, ex_Dog]
       [[''name'' \<mapsto> Str ''Rex'', ''kind'' \<mapsto> Str ''Cat''], [''kind'' \<mapsto> Str ''Dog'']]
       [ex_missing ex_Cat [''name'' \<mapsto> Str ''Rex''], ex_missing ex_Dog [''name'' \<mapsto> Str ''Rex'']]
       []
     = Inr ([''name'' \<mapsto> Str ''Rex'', ''kind'' \<mapsto> Str ''Dog''],
            [''_schema'' \<mapsto> [''not matched, any of ['Cat', 'Dog', 'self']'']])"
    using conjunct1 [OF conjunct2 [OF conjunct2 [OF oneOf_no_match [OF loop none,
            of "\<lparr>self_schemas = [ex_Cat, ex_Dog], include_self = True\<rparr>"
               "[''name'' \<mapsto> Str ''Rex'']"]]]]
    by (simp add: names)
  with loop none show ?thesis by (intro conjI)
qed

subsection \<open>anyOf\<close>

text \<open>
  Claim C7, at an input where it fails as stated. An anyOf schema declares the variants
  \<open>ex_A\<close> and \<open>ex_B\<close>; on serialization the payload has only \<^verbatim>\<open>x\<close>, so the only
  candidate is \<open>ex_A\<close>, and its \<^verbatim>\<open>dump\<close> reports an error. The \<^verbatim>\<open>_schema\<close> message
  names \<open>B\<close> as well, which was not a candidate: the code formats \<^verbatim>\<open>self.schemas\<close>, not
  the \<^verbatim>\<open>schemas\<close> it was given.
\<close>

theorem anyOf_not_matched_names_counterexample:
  "find_matched_schemas (ex_finder [ex_A, ex_B]) [''x'' \<mapsto> Num 1] = Inr [ex_A] \<and>
   marshall_one (ex_finder [ex_A, ex_B])
       (AnyOfSchema_final_check \<lparr>any_schemas = [ex_A, ex_B]\<rparr>)
       ex_reject
       [''x'' \<mapsto> Num 1]
     = Inr ([''x'' \<mapsto> Num 1], [''_schema'' \<mapsto> [''not matched, any of ['A', 'B']'']]) \<and>
   ''not matched, any of ['A', 'B']''
     \<noteq> ''not matched, any of '' @ py_repr_list (map class_name [ex_A])"
proof -
  have cands: "find_matched_schemas (ex_finder [ex_A, ex_B]) [''x'' \<mapsto> Num 1] = Inr [ex_A]"
    by (simp add: find_matched_schemas_def signature_mapping_def signature_def
                  has_all_keys_def ex_defs)
  have res: "ex_result ex_A [''x'' \<mapsto> Num 1] = [''x'' \<mapsto> Num 1]"
    by (simp add: ex_defs)
  have names: "py_repr_list [class_name ex_A, class_name ex_B] = ''['A', 'B']''"
    by (simp add: py_repr_list_def py_repr_str_def class_name_def ex_defs)
  have run: "marshall_one (ex_finder [ex_A, ex_B])
       (AnyOfSchema_final_check \<lparr>any_schemas = [ex_A, ex_B]\<rparr>)
       ex_reject
       [''x'' \<mapsto> Num 1]
     = Inr ([''x'' \<mapsto> Num 1], [''_schema'' \<mapsto> [''not matched, any of ['A', 'B']'']])"
    unfolding marshall_one_def cands
    by (simp add: AnyOfSchema_final_check_def merged_fallback_def ex_reject_def res names)
  have diff: "''not matched, any of ['A', 'B']''
     \<noteq> ''not matched, any of '' @ py_repr_list (map class_name [ex_A])"
    by (simp add: py_repr_list_def py_repr_str_def class_name_def ex_defs)
  from cands run diff show ?thesis by (intro conjI)
qed

text \<open>
  Claim C7, amended. In an anyOf aggregation: if at least one candidate produced an empty
  error dictionary, \<^verbatim>\<open>final_check\<close> returns the first successful value updated in order
  by each later successful value, with an empty error dictionary; if none did, it returns
  the same fallback as the zero-match branch of oneOf (\<^verbatim>\<open>results[0]\<close> updated by every
  other result, or the payload when there is no result) with the error
  \<^verbatim>\<open>_schema: ["not matched, any of {names}"]\<close>, where the names are the class names of
  all declared variants of the anyOf schema, whether or not they were candidates, and
  never \<^verbatim>\<open>self\<close>.
\<close>

theorem anyOf_final_check_spec:
  assumes "candidates_loop run ss [] [] [] = (results, errors, compacted)"
  shows "compacted = map (\<lambda>s. fst (run s)) (filter (\<lambda>s. snd (run s) = Map.empty) ss) \<and>
         AnyOfSchema_final_check self data ss results errors compacted =
           (if compacted \<noteq> [] then
              Inr (update_all (hd compacted) (tl compacted), Map.empty)
            else
              Inr (if results = [] then data else update_all (hd results) (tl results),
                   [''_schema'' \<mapsto>
                      [''not matched, any of ''
                         @ py_repr_list (map class_name (any_schemas self))]]))"
proof -
  from assms have c: "compacted = map (\<lambda>s. fst (run s)) (filter (\<lambda>s. snd (run s) = Map.empty) ss)"
    by (simp add: candidates_loop_eq)
  have "AnyOfSchema_final_check self data ss results errors compacted =
           (if compacted \<noteq> [] then
              Inr (update_all (hd compacted) (tl compacted), Map.empty)
            else
              Inr (if results = [] then data else update_all (hd results) (tl results),
                   [''_schema'' \<mapsto>
                      [''not matched, any of ''
                         @ py_repr_list (map class_name (any_schemas self))]]))"
    by (cases compacted; cases results)
       (simp_all add: AnyOfSchema_final_check_def merged_fallback_def)
  with c show ?thesis by blast
qed

theorem anyOf_final_check_spec_witness:
  "candidates_loop (\<lambda>s. ex_load s [''x'' \<mapsto> Num 1, ''y'' \<mapsto> Num 2] False) [ex_A, ex_B] [] [] []
     = ([[''x'' \<mapsto> Num 1], [''y'' \<mapsto> Num 2]], [Map.empty, Map.empty],
        [[''x'' \<mapsto> Num 1], [''y'' \<mapsto> Num 2]]) \<and>
   AnyOfSchema_final_check \<lparr>any_schemas = [ex_A, ex_B]\<rparr>
       [''x'' \<mapsto> Num 1, ''y'' \<mapsto> Num 2] [ex_A, ex_B]
       [[''x'' \<mapsto> Num 1], [''y'' \<mapsto> Num 2]] [Map.empty, Map.empty]
       [[''x'' \<mapsto> Num 1], [''y'' \<mapsto> Num 2]]
     = Inr ([''x'' \<mapsto> Num 1, ''y'' \<mapsto> Num 2], Map.empty)"
proof -
  have loop: "candidates_loop (\<lambda>s. ex_load s [''x'' \<mapsto> Num 1, ''y'' \<mapsto> Num 2] False)
                [ex_A, ex_B] [] [] []
     = ([[''x'' \<mapsto> Num 1], [''y'' \<mapsto> Num 2]], [Map.empty, Map.empty],
        [[''x'' \<mapsto> Num 1], [''y'' \<mapsto> Num 2]])"
    by (simp add: ex_defs)
  have "AnyOfSchema_final_check \<lparr>any_schemas = [ex_A, ex_B]\<rparr>
       [''x'' \<mapsto> Num 1, ''y'' \<mapsto> Num 2] [ex_A, ex_B]
       [[''x'' \<mapsto> Num 1], [''y'' \<mapsto> Num 2]] [Map.empty, Map.empty]
       [[''x'' \<mapsto> Num 1], [''y'' \<mapsto> Num 2]]
     = Inr ([''x'' \<mapsto> Num 1, ''y'' \<mapsto> Num 2], Map.empty)"
    using conjunct2 [OF anyOf_final_check_spec [OF loop,
            of "\<lparr>any_schemas = [ex_A, ex_B]\<rparr>" "[''x'' \<mapsto> Num 1, ''y'' \<mapsto> Num 2]"]]
    by simp
  with loop show ?thesis by (intro conjI)
qed

subsection \<open>Batches\<close>

lemma run_many_loop_eq:
  assumes "list_all (\<lambda>d. isl (fn d) = False) ds"
  shows "run_many_loop i ds fn results errors =
     Inr (results @ map (\<lambda>d. fst (projr (fn d))) ds,
          (\<lambda>j. if i \<le> j \<and> j < i + length ds \<and> snd (projr (fn (ds ! (j - i)))) \<noteq> Map.empty
               then Some (snd (projr (fn (ds ! (j - i))))) else errors j))"
  using assms
proof (induction ds arbitrary: i results errors)
  case Nil
  have "(\<lambda>j. if i \<le> j \<and> j < i + length ([]::'a list)
                  \<and> snd (projr (fn ([] ! (j - i)))) \<noteq> Map.empty
             then Some (snd (projr (fn ([] ! (j - i))))) else errors j) = errors"
    by (rule ext) auto
  then show ?case by simp
next
  case (Cons d ds)
  from Cons.prems obtain r err where fd: "fn d = Inr (r, err)"
    by (cases "fn d") auto
  from Cons.prems have rest: "list_all (\<lambda>d. isl (fn d) = False) ds" by simp
  let ?errors' = "if err \<noteq> Map.empty then errors(i \<mapsto> err) else errors"
  have step: "run_many_loop i (d # ds) fn results errors =
                run_many_loop (Suc i) ds fn (results @ [r]) ?errors'"
    by (simp add: fd)
  have maps: "(\<lambda>j. if Suc i \<le> j \<and> j < Suc i + length ds
                       \<and> snd (projr (fn (ds ! (j - Suc i)))) \<noteq> Map.empty
                  then Some (snd (projr (fn (ds ! (j - Suc i))))) else ?errors' j)
            = (\<lambda>j. if i \<le> j \<and> j < i + length (d # ds)
                       \<and> snd (projr (fn ((d # ds) ! (j - i)))) \<noteq> Map.empty
                  then Some (snd (projr (fn ((d # ds) ! (j - i))))) else errors j)"
  proof (rule ext)
    fix j
    consider (lt) "j < i" | (eq) "j = i" | (gt) "i < j" by linarith
    then show "(if Suc i \<le> j \<and> j < Suc i + length ds
                       \<and> snd (projr (fn (ds ! (j - Suc i)))) \<noteq> Map.empty
                then Some (snd (projr (fn (ds ! (j - Suc i))))) else ?errors' j)
            = (if i \<le> j \<and> j < i + length (d # ds)
                       \<and> snd (projr (fn ((d # ds) ! (j - i)))) \<noteq> Map.empty
               then Some (snd (projr (fn ((d # ds) ! (j - i))))) else errors j)"
    proof cases
      case lt
      then show ?thesis by simp
    next
      case eq
      then show ?thesis by (simp add: fd)
    next
      case gt
      then have "j - i = Suc (j - Suc i)" by simp
      with gt show ?thesis by simp
    qed
  qed
  show ?case
    unfolding step Cons.IH [OF rest] maps by (simp add: fd)
qed

text \<open>An exception of \<open>fn\<close> is not an error dictionary: the first one leaves the loop.\<close>

lemma run_many_loop_raises:
  "list_all (\<lambda>d. isl (fn d) = False) ds \<Longrightarrow> fn d = Inl e \<Longrightarrow>
   run_many_loop i (ds @ d # rest) fn results errors = Inl e"
proof (induction ds arbitrary: i results errors)
  case Nil
  then show ?case by simp
next
  case (Cons a ds)
  from Cons.prems obtain r err where fa: "fn a = Inr (r, err)"
    by (cases "fn a") auto
  from Cons.prems have rest: "list_all (\<lambda>d. isl (fn d) = False) ds" by simp
  show ?case by (simp add: fa Cons.IH [OF rest Cons.prems(2)])
qed

lemma run_many_returns:
  assumes "list_all (\<lambda>d. isl (fn d) = False) data"
  shows "run_many data fn =
     Inr (map (\<lambda>d. fst (projr (fn d))) data,
          (\<lambda>i. if i < length data \<and> snd (projr (fn (data ! i))) \<noteq> Map.empty
               then Some (snd (projr (fn (data ! i)))) else None))"
  using run_many_loop_eq [OF assms, of 0 "[]" Map.empty]
  by (simp add: run_many_def cong: if_cong)

lemma ex_unmarshall_Cat:
  "ex_unmarshall [''type'' \<mapsto> Str ''Cat'', ''name'' \<mapsto> Str ''Tom'']
     = Inr ([''name'' \<mapsto> Str ''Tom'', ''type'' \<mapsto> Str ''Cat''], Map.empty)"
  by (simp add: ex_unmarshall_def unmarshall_one_def find_schemas_def discriminator_lookup_def
                ex_named_finder_def OneOfSchema_final_check_def ex_defs)

lemma ex_unmarshall_no_type:
  "ex_unmarshall [''name'' \<mapsto> Str ''Rex''] = Inl (KeyError (ValKey (Str ''type'')))"
  by (simp add: ex_unmarshall_def unmarshall_one_def find_schemas_def discriminator_lookup_def
                ex_named_finder_def)

text \<open>
  Claim C9, at an input where it fails as stated. The per-item function is
  \<^verbatim>\<open>_unmarshall_one\<close> with a discriminator. The first item of the batch is loaded, the
  second has no \<^verbatim>\<open>type\<close> field, and its \<^verbatim>\<open>KeyError\<close> leaves \<^verbatim>\<open>run_many\<close>: there is
  no results list with one entry per item, and the third item is not processed.
\<close>

theorem run_many_abort_counterexample:
  "ex_unmarshall [''type'' \<mapsto> Str ''Cat'', ''name'' \<mapsto> Str ''Tom'']
     = Inr ([''name'' \<mapsto> Str ''Tom'', ''type'' \<mapsto> Str ''Cat''], Map.empty) \<and>
   ex_unmarshall [''name'' \<mapsto> Str ''Rex''] = Inl (KeyError (ValKey (Str ''type''))) \<and>
   run_many [[''type'' \<mapsto> Str ''Cat'', ''name'' \<mapsto> Str ''Tom''],
             [''name'' \<mapsto> Str ''Rex''],
             [''type'' \<mapsto> Str ''Dog'', ''bark'' \<mapsto> Str ''loud'']] ex_unmarshall
     = Inl (KeyError (ValKey (Str ''type'')))"
  by (simp add: run_many_def ex_unmarshall_Cat ex_unmarshall_no_type)

text \<open>
  Claim C9, amended. For a batch, \<^verbatim>\<open>run_many\<close> calls the per-item function on the items
  in input order. When the function returns on every item, a non-empty error dictionary
  of an item does not stop the loop: the results list has one entry per item, in input
  order, and the error dictionary maps exactly the indices of the items with a non-empty
  error dictionary to that dictionary. When the function raises on an item (as
  \<^verbatim>\<open>_unmarshall_one\<close> does for a payload without the discriminator field), the
  exception of the first such item leaves \<^verbatim>\<open>run_many\<close>, and neither a results list nor
  an error dictionary is returned.
\<close>

theorem run_many_returns_or_raises:
  "(list_all (\<lambda>d. isl (fn d) = False) data \<longrightarrow>
      run_many data fn =
        Inr (map (\<lambda>d. fst (projr (fn d))) data,
             (\<lambda>i. if i < length data \<and> snd (projr (fn (data ! i))) \<noteq> Map.empty
                  then Some (snd (projr (fn (data ! i)))) else None))) \<and>
   (list_all (\<lambda>d. isl (fn d) = False) ds \<and> fn d = Inl e \<longrightarrow>
      run_many (ds @ d # rest) fn = Inl e)"
  using run_many_returns [of fn data] run_many_loop_raises [of fn ds d e 0 rest "[]" Map.empty]
  by (simp add: run_many_def)

theorem run_many_returns_or_raises_witness:
  "list_all (\<lambda>d. isl (Inr (ex_load ex_A d False) :: error + payload \<times> errs) = False)
     [[''x'' \<mapsto> Num 1], Map.empty, [''x'' \<mapsto> Num 2]] \<and>
   run_many [[''x'' \<mapsto> Num 1], Map.empty, [''x'' \<mapsto> Num 2]] (\<lambda>d. Inr (ex_load ex_A d False))
     = Inr ([[''x'' \<mapsto> Num 1], Map.empty, [''x'' \<mapsto> Num 2]],
            [1 \<mapsto> [''x'' \<mapsto> [''Missing data for required field.'']]]) \<and>
   list_all (\<lambda>d. isl (ex_unmarshall d) = False)
     [[''type'' \<mapsto> Str ''Cat'', ''name'' \<mapsto> Str ''Tom'']] \<and>
   ex_unmarshall [''name'' \<mapsto> Str ''Rex''] = Inl (KeyError (ValKey (Str ''type''))) \<and>
   run_many ([[''type'' \<mapsto> Str ''Cat'', ''name'' \<mapsto> Str ''Tom'']]
               @ [''name'' \<mapsto> Str ''Rex'']
               # [[''type'' \<mapsto> Str ''Dog'', ''bark'' \<mapsto> Str ''loud'']]) ex_unmarshall
     = Inl (KeyError (ValKey (Str ''type'')))"
proof -
  have ok: "list_all (\<lambda>d. isl (Inr (ex_load ex_A d False) :: error + payload \<times> errs) = False)
     [[''x'' \<mapsto> Num 1], Map.empty, [''x'' \<mapsto> Num 2]]"
    by simp
  have errs: "(\<lambda>i. if i < length [[''x'' \<mapsto> Num 1], Map.empty, [''x'' \<mapsto> Num 2]]
                  \<and> snd (projr (Inr (ex_load ex_A ([[''x'' \<mapsto> Num 1], Map.empty, [''x'' \<mapsto> Num 2]] ! i) False) :: error + payload \<times> errs)) \<noteq> Map.empty
               then Some (snd (projr (Inr (ex_load ex_A ([[''x'' \<mapsto> Num 1], Map.empty, [''x'' \<mapsto> Num 2]] ! i) False) :: error + payload \<times> errs))) else None)
          = [1 \<mapsto> [''x'' \<mapsto> [''Missing data for required field.'']]]"
  proof (rule ext)
    fix i :: nat
    consider "i = 0" | "i = 1" | "i = 2" | "3 \<le> i" by linarith
    then show "(if i < length [[''x'' \<mapsto> Num 1], Map.empty, [''x'' \<mapsto> Num 2]]
                  \<and> snd (projr (Inr (ex_load ex_A ([[''x'' \<mapsto> Num 1], Map.empty, [''x'' \<mapsto> Num 2]] ! i) False) :: error + payload \<times> errs)) \<noteq> Map.empty
               then Some (snd (projr (Inr (ex_load ex_A ([[''x'' \<mapsto> Num 1], Map.empty, [''x'' \<mapsto> Num 2]] ! i) False) :: error + payload \<times> errs))) else None)
          = [1 \<mapsto> [''x'' \<mapsto> [''Missing data for required field.'']]] i"
      by cases (simp_all add: ex_defs)
  qed
  have ret: "run_many [[''x'' \<mapsto> Num 1], Map.empty, [''x'' \<mapsto> Num 2]] (\<lambda>d. Inr (ex_load ex_A d False))
     = Inr ([[''x'' \<mapsto> Num 1], Map.empty, [''x'' \<mapsto> Num 2]],
            [1 \<mapsto> [''x'' \<mapsto> [''Missing data for required field.'']]])"
    unfolding mp [OF conjunct1 [OF run_many_returns_or_raises] ok] errs
    by (simp add: ex_defs)
  have ok2: "list_all (\<lambda>d. isl (ex_unmarshall d) = False)
     [[''type'' \<mapsto> Str ''Cat'', ''name'' \<mapsto> Str ''Tom'']]"
    by (simp add: ex_unmarshall_Cat)
  have raise: "run_many ([[''type'' \<mapsto> Str ''Cat'', ''name'' \<mapsto> Str ''Tom'']]
               @ [''name'' \<mapsto> Str ''Rex'']
               # [[''type'' \<mapsto> Str ''Dog'', ''bark'' \<mapsto> Str ''loud'']]) ex_unmarshall
     = Inl (KeyError (ValKey (Str ''type'')))"
    by (rule mp [OF conjunct2 [OF run_many_returns_or_raises]])
       (intro conjI ok2 ex_unmarshall_no_type)
  from ok ret ok2 ex_unmarshall_no_type raise show ?thesis by (intro conjI)
qed

subsection \<open>Candidates without a discriminator\<close>

lemma update_fresh: "k \<notin> fst ` set al \<Longrightarrow> AList.update k v al = al @ [(k, v)]"
  by (induction al) auto



lemma signature_loop_distinct:
  "distinct (map fst d @ map signature ss) \<Longrightarrow>
   signature_loop d ss = d @ map (\<lambda>s. (signature s, s)) ss"
proof (induction ss arbitrary: d)
  case Nil
  show ?case by simp
next
  case (Cons s ss)
  from Cons.prems have fresh: "signature s \<notin> fst ` set d" by auto
  from Cons.prems have "distinct (map fst (d @ [(signature s, s)]) @ map signature ss)" by auto
  from Cons.IH [OF this] fresh show ?case by (simp add: update_fresh)
qed

text \<open>\<open>has_all_keys\<close> on a signature: every required field of the schema is a key of the
  payload.\<close>

lemma has_all_keys_signature:
  "has_all_keys data (signature s)
     \<longleftrightarrow> (\<forall>nf \<in> set (schema_fields s). required (snd nf) \<longrightarrow> fst nf \<in> dom data)"
  by (force simp: has_all_keys_def signature_def list_all_iff)

text \<open>
  When the variants have pairwise different signatures, \<^verbatim>\<open>find_matched_schemas\<close> returns
  exactly the variants whose required fields are all keys of the payload, in declared
  order.
\<close>

lemma find_matched_schemas_distinct:
  assumes "discriminator_name f = None" and "distinct (map signature (schemas f))"
  shows "find_matched_schemas f data =
           Inr (filter (\<lambda>s. has_all_keys data (signature s)) (schemas f))"
  using assms signature_loop_distinct [of "[]" "schemas f"]
  by (simp add: find_matched_schemas_def signature_mapping_def filter_map comp_def)

text \<open>
  Claim C1, evaluated where the code departs from it. \<open>ex_A\<close> and \<open>ex_A2\<close> have the same
  signature \<^verbatim>\<open>('x',)\<close>, and the payload has the key \<^verbatim>\<open>x\<close>: both variants match, but
  \<^verbatim>\<open>signature_mapping\<close> keeps one schema per signature, so only \<open>ex_A2\<close> is returned.
  With \<open>ex_B\<close> declared between them, \<open>ex_A2\<close> is returned before \<open>ex_B\<close>, against the
  declared order. Two variants without required fields share the signature \<^verbatim>\<open>()\<close> in the
  same way.
\<close>

theorem find_matched_schemas_same_signature:
  "signature ex_A = signature ex_A2 \<and> ex_A \<noteq> ex_A2 \<and>
   has_all_keys [''x'' \<mapsto> Num 1] (signature ex_A) \<and>
   find_matched_schemas (ex_finder [ex_A, ex_A2]) [''x'' \<mapsto> Num 1] = Inr [ex_A2] \<and>
   find_matched_schemas (ex_finder [ex_A, ex_B, ex_A2]) [''x'' \<mapsto> Num 1, ''y'' \<mapsto> Num 2]
     = Inr [ex_A2, ex_B] \<and>
   find_matched_schemas
       (ex_finder [\<lparr>schema_class = Cls 5 ''P'', schema_fields = []\<rparr>,
                   \<lparr>schema_class = Cls 6 ''Q'', schema_fields = []\<rparr>]) Map.empty
     = Inr [\<lparr>schema_class = Cls 6 ''Q'', schema_fields = []\<rparr>]"
  by (simp add: find_matched_schemas_def signature_mapping_def signature_def
                has_all_keys_def ex_defs)



subsection \<open>Candidates with a discriminator\<close>

lemma by_class_name_range:
  "by_class_name d ss k = Some s \<Longrightarrow> d k = Some s \<or> (s \<in> set ss \<and> class_name s = k)"
  by (induction ss arbitrary: d) (fastforce split: if_splits)+

lemma by_class_range:
  "by_class d ss c = Some s \<Longrightarrow> d c = Some s \<or> (s \<in> set ss \<and> schema_class s = c)"
  by (induction ss arbitrary: d) (fastforce split: if_splits)+

lemma named_mapping_range:
  "named_mapping m d items = Inr dm \<Longrightarrow> dm k = Some s \<Longrightarrow>
     d k = Some s \<or> (\<exists>c. (k, c) \<in> set items \<and> m c = Some s)"
proof (induction items arbitrary: d)
  case Nil
  then show ?case by simp
next
  case (Cons item items)
  obtain name c where item: "item = (name, c)" by (cases item)
  from Cons.prems(1) obtain s' where mc: "m c = Some s'"
    and rest: "named_mapping m (d(name \<mapsto> s')) items = Inr dm"
    by (auto simp: item split: option.splits)
  from Cons.IH [OF rest Cons.prems(2)] show ?case
    using mc by (auto simp: item split: if_splits)
qed

text \<open>A finder built with a discriminator has a name and a mapping, and the mapping
  leads to declared variants only.\<close>

lemma init_discriminator:
  assumes "SchemaFinder_init ss (Some d) = Inr f"
  shows "schemas f = ss \<and> discriminator_name f = Some (fieldname d) \<and>
         (\<exists>dm. discriminator_mapping f = Some dm \<and> (\<forall>k s. dm k = Some s \<longrightarrow> s \<in> set ss))"
proof (cases "mapping d")
  case None
  with assms have f: "f = \<lparr>schemas = ss, discriminator_name = Some (fieldname d),
                    discriminator_mapping = Some (by_class_name Map.empty ss)\<rparr>"
    by (simp add: SchemaFinder_init_def)
  show ?thesis using by_class_name_range [of Map.empty ss] by (auto simp: f)
next
  case (Some items)
  with assms obtain dm where nm: "named_mapping (by_class Map.empty ss) Map.empty items = Inr dm"
    and f: "f = \<lparr>schemas = ss, discriminator_name = Some (fieldname d),
                    discriminator_mapping = Some dm\<rparr>"
    by (auto simp: SchemaFinder_init_def split: sum.splits)
  have "s \<in> set ss" if "dm k = Some s" for k s
    using named_mapping_range [OF nm that] by_class_range [of Map.empty ss] by auto
  then show ?thesis by (auto simp: f)
qed

text \<open>
  Claim C3, at inputs where it fails as stated. The code has no
  \<^verbatim>\<open>MissingDiscriminatorError\<close> and no \<^verbatim>\<open>UnknownDiscriminatorValueError\<close>: both
  subscripts raise the built-in \<^verbatim>\<open>KeyError\<close> with the missing key. A payload without
  the field \<^verbatim>\<open>type\<close> and a payload whose \<^verbatim>\<open>type\<close> is the unmapped value \<^verbatim>\<open>type\<close>
  fail with the very same error. A payload whose \<^verbatim>\<open>type\<close> is the list \<^verbatim>\<open>[1]\<close> has
  the field, with a value that maps to no variant, and fails with \<^verbatim>\<open>TypeError\<close>.
\<close>

theorem discriminator_errors_counterexample:
  "SchemaFinder_init [ex_Cat, ex_Dog] (Some \<lparr>fieldname = ''type'', mapping = None\<rparr>)
     = Inr ex_named_finder \<and>
   find_matched_schemas ex_named_finder Map.empty = Inl (KeyError (ValKey (Str ''type''))) \<and>
   find_matched_schemas ex_named_finder [''type'' \<mapsto> Str ''type'']
     = Inl (KeyError (ValKey (Str ''type''))) \<and>
   find_schemas ex_named_finder Map.empty = Inl (KeyError (ValKey (Str ''type''))) \<and>
   find_schemas ex_named_finder [''type'' \<mapsto> Str ''type'']
     = Inl (KeyError (ValKey (Str ''type''))) \<and>
   find_matched_schemas ex_named_finder [''type'' \<mapsto> Arr [Num 1]] = Inl TypeError \<and>
   find_schemas ex_named_finder [''type'' \<mapsto> Arr [Num 1]] = Inl TypeError"
  by (simp add: SchemaFinder_init_def find_matched_schemas_def find_schemas_def
                discriminator_lookup_def class_name_def ex_named_finder_def ex_defs)

text \<open>
  Claim C3, amended. For a finder built with a discriminator, both \<^verbatim>\<open>find_schemas\<close> and
  \<^verbatim>\<open>find_matched_schemas\<close> return exactly one candidate, a declared variant, when the
  discriminator field is in the payload and its value is a key of the discriminator
  mapping. They fail with \<^verbatim>\<open>KeyError\<close> carrying the field name when the field is not in
  the payload, with \<^verbatim>\<open>TypeError\<close> when the value of the field cannot be hashed (a list
  or a dictionary), and with \<^verbatim>\<open>KeyError\<close> carrying the value when the value can be
  hashed and is not a key of the mapping. They never return no candidate or several.
\<close>

theorem discriminator_candidates:
  assumes "SchemaFinder_init ss (Some d) = Inr f"
  shows "\<exists>dm. discriminator_mapping f = Some dm \<and>
           (\<forall>k s. dm k = Some s \<longrightarrow> s \<in> set ss) \<and>
           (\<forall>data.
              find_matched_schemas f data = find_schemas f data \<and>
              find_schemas f data =
                (case data (fieldname d) of
                   None \<Rightarrow> Inl (KeyError (ValKey (Str (fieldname d))))
                 | Some v \<Rightarrow>
                     (if \<not> hashable v then Inl TypeError
                      else
                        (case (case v of Str k \<Rightarrow> dm k | _ \<Rightarrow> None) of
                           None \<Rightarrow> Inl (KeyError (ValKey v))
                         | Some s \<Rightarrow> Inr [s]))))"
proof -
  from init_discriminator [OF assms] obtain dm where
    n: "discriminator_name f = Some (fieldname d)" and
    dm: "discriminator_mapping f = Some dm" and
    r: "\<forall>k s. dm k = Some s \<longrightarrow> s \<in> set ss" by blast
  have "find_matched_schemas f data = find_schemas f data \<and>
        find_schemas f data =
                (case data (fieldname d) of
                   None \<Rightarrow> Inl (KeyError (ValKey (Str (fieldname d))))
                 | Some v \<Rightarrow>
                     (if \<not> hashable v then Inl TypeError
                      else
                        (case (case v of Str k \<Rightarrow> dm k | _ \<Rightarrow> None) of
                           None \<Rightarrow> Inl (KeyError (ValKey v))
                         | Some s \<Rightarrow> Inr [s])))" for data
    using n dm
    by (simp add: find_matched_schemas_def find_schemas_def discriminator_lookup_def
             split: option.splits)
  with dm r show ?thesis by blast
qed

theorem discriminator_candidates_witness:
  "SchemaFinder_init [ex_Cat, ex_Dog]
       (Some \<lparr>fieldname = ''type'',
              mapping = Some [(''cat'', Cls 3 ''Cat''), (''dog'', Cls 4 ''Dog'')]\<rparr>)
     = Inr ex_mapped_finder \<and>
   find_schemas ex_mapped_finder [''type'' \<mapsto> Str ''dog'', ''bark'' \<mapsto> Str ''loud'']
     = Inr [ex_Dog] \<and>
   find_matched_schemas ex_mapped_finder [''type'' \<mapsto> Str ''dog'', ''bark'' \<mapsto> Str ''loud'']
     = Inr [ex_Dog] \<and>
   find_schemas ex_mapped_finder [''name'' \<mapsto> Str ''Rex'']
     = Inl (KeyError (ValKey (Str ''type''))) \<and>
   find_schemas ex_mapped_finder [''type'' \<mapsto> Str ''Fish'']
     = Inl (KeyError (ValKey (Str ''Fish''))) \<and>
   find_schemas ex_mapped_finder [''type'' \<mapsto> Num 7]
     = Inl (KeyError (ValKey (Num 7))) \<and>
   find_schemas ex_mapped_finder [''type'' \<mapsto> Arr [Str ''dog'']] = Inl TypeError \<and>
   find_schemas ex_mapped_finder [''type'' \<mapsto> Obj [(''kind'', Str ''dog'')]] = Inl TypeError"
proof -
  have init: "SchemaFinder_init [ex_Cat, ex_Dog]
       (Some \<lparr>fieldname = ''type'',
              mapping = Some [(''cat'', Cls 3 ''Cat''), (''dog'', Cls 4 ''Dog'')]\<rparr>)
     = Inr ex_mapped_finder"
    by (simp add: SchemaFinder_init_def ex_mapped_finder_def ex_defs)
  from discriminator_candidates [OF init] obtain dm where
    dm: "discriminator_mapping ex_mapped_finder = Some dm" and
    eq: "\<forall>data.
           find_matched_schemas ex_mapped_finder data = find_schemas ex_mapped_finder data \<and>
           find_schemas ex_mapped_finder data =
             (case data (fieldname \<lparr>fieldname = ''type'',
                           mapping = Some [(''cat'', Cls 3 ''Cat''), (''dog'', Cls 4 ''Dog'')]\<rparr>) of
                None \<Rightarrow> Inl (KeyError (ValKey (Str (fieldname \<lparr>fieldname = ''type'',
                           mapping = Some [(''cat'', Cls 3 ''Cat''), (''dog'', Cls 4 ''Dog'')]\<rparr>))))
              | Some v \<Rightarrow>
                  (if \<not> hashable v then Inl TypeError
                   else
                     (case (case v of Str k \<Rightarrow> dm k | _ \<Rightarrow> None) of
                        None \<Rightarrow> Inl (KeyError (ValKey v))
                      | Some s \<Rightarrow> Inr [s])))"
    by blast
  from dm have dm_eq: "dm = [''cat'' \<mapsto> ex_Cat, ''dog'' \<mapsto> ex_Dog]"
    by (simp add: ex_mapped_finder_def)
  show ?thesis
    using eq by (simp add: init dm_eq)
qed

subsection \<open>Merging with the errors of the base schema\<close>

text \<open>
  Claim C2, at inputs where it fails as stated. The base schema failed
  (\<open>self_errors\<close> is there and not empty). When the aggregator's only error is a
  \<^verbatim>\<open>not matched\<close> message, the result is that message, not \<open>self_errors\<close>; and when
  the aggregator reported no error at all, \<open>self_errors\<close> is not merged in: the result
  stays empty.
\<close>

theorem merge_self_errors_counterexample:
  "all_not_matched [''_schema'' \<mapsto> [''not matched, any of ['A', 'self']'']] \<and>
   merge_errors_one_for_include_self
       [''_schema'' \<mapsto> [''not matched, any of ['A', 'self']'']]
       (Some [''x'' \<mapsto> [''Missing data for required field.'']])
     = Inr [''_schema'' \<mapsto> [''not matched, any of ['A', 'self']'']] \<and>
   merge_errors_one_for_include_self
       [''_schema'' \<mapsto> [''not matched, any of ['A', 'self']'']]
       (Some [''x'' \<mapsto> [''Missing data for required field.'']])
     \<noteq> Inr [''x'' \<mapsto> [''Missing data for required field.'']] \<and>
   merge_errors_one_for_include_self Map.empty
       (Some [''x'' \<mapsto> [''Missing data for required field.'']])
     = Inr Map.empty"
proof -
  let ?E = "[''_schema'' \<mapsto> [''not matched, any of ['A', 'self']'']] :: errs"
  let ?S = "[''x'' \<mapsto> [''Missing data for required field.'']] :: errs"
  have nm: "all_not_matched ?E"
    by (simp add: all_not_matched_def)
  have keep: "merge_errors_one_for_include_self ?E (Some ?S) = Inr ?E"
    using nm by (simp add: merge_errors_one_for_include_self_def)
  have "?E ''x'' \<noteq> ?S ''x''" by simp
  then have ne: "?E \<noteq> ?S" by metis
  have empty: "merge_errors_one_for_include_self Map.empty (Some ?S) = Inr Map.empty"
    by (simp add: merge_errors_one_for_include_self_def all_not_matched_def)
  from nm keep ne empty show ?thesis by simp
qed

text \<open>
  Claim C2, amended. Whenever the base schema failed (\<open>self_errors\<close> is not \<open>None\<close>): if
  every message under the aggregator's \<^verbatim>\<open>_schema\<close> key starts with
  \<^verbatim>\<open>not matched, any of\<close> (also when there is no such key, as when the aggregator
  reported no error), the aggregator's errors are returned unchanged and \<open>self_errors\<close>
  is dropped; otherwise \<open>self_errors\<close> is merged into the aggregator's errors, so both
  failure reasons are reported.
\<close>

theorem merge_self_errors_present:
  "merge_errors_one_for_include_self errors (Some se) =
     Inr (if all_not_matched errors then errors else errors ++ se)"
  by (simp add: merge_errors_one_for_include_self_def)

theorem merge_self_errors_present_witness:
  "merge_errors_one_for_include_self
       [''_schema'' \<mapsto> [''satisfied both of ['A', 'B'], not only one'']]
       (Some [''x'' \<mapsto> [''Missing data for required field.'']])
     = Inr [''_schema'' \<mapsto> [''satisfied both of ['A', 'B'], not only one''],
            ''x'' \<mapsto> [''Missing data for required field.'']]"
  using merge_self_errors_present
          [of "[''_schema'' \<mapsto> [''satisfied both of ['A', 'B'], not only one'']]"
              "[''x'' \<mapsto> [''Missing data for required field.'']]"]
  by (simp add: all_not_matched_def)

text \<open>
  Claim C6. Whenever the base schema succeeded (\<open>self_errors\<close> is \<open>None\<close>): if the
  aggregator reported no error, the result is
  \<^verbatim>\<open>_schema: ["satisfied both of self and others, not only one"]\<close>; if the messages
  under the aggregator's \<^verbatim>\<open>_schema\<close> key are all \<^verbatim>\<open>not matched\<close> messages, that key is
  removed, and the result is empty (success) when it was the only key; if some message
  under \<^verbatim>\<open>_schema\<close> is not a \<^verbatim>\<open>not matched\<close> message (the ambiguity error), the errors
  are returned unchanged.
\<close>

theorem merge_self_succeeded:
  "merge_errors_one_for_include_self Map.empty None =
     Inr [''_schema'' \<mapsto> [''satisfied both of self and others, not only one'']] \<and>
   (errors ''_schema'' = Some msgs \<and> list_all (prefix ''not matched, any of'') msgs \<longrightarrow>
      merge_errors_one_for_include_self errors None = Inr (errors(''_schema'' := None))) \<and>
   (list_all (prefix ''not matched, any of'') msgs \<longrightarrow>
      merge_errors_one_for_include_self [''_schema'' \<mapsto> msgs] None = Inr Map.empty) \<and>
   (errors ''_schema'' = Some msgs \<and> \<not> list_all (prefix ''not matched, any of'') msgs \<longrightarrow>
      merge_errors_one_for_include_self errors None = Inr errors)"
  by (auto simp: merge_errors_one_for_include_self_def all_not_matched_def)

theorem merge_self_succeeded_witness:
  "list_all (prefix ''not matched, any of'') [''not matched, any of ['A', 'self']''] \<and>
   merge_errors_one_for_include_self
       [''_schema'' \<mapsto> [''not matched, any of ['A', 'self']'']] None = Inr Map.empty \<and>
   \<not> list_all (prefix ''not matched, any of'') [''satisfied both of ['A', 'B'], not only one''] \<and>
   merge_errors_one_for_include_self
       [''_schema'' \<mapsto> [''satisfied both of ['A', 'B'], not only one'']] None
     = Inr [''_schema'' \<mapsto> [''satisfied both of ['A', 'B'], not only one'']]"
  using merge_self_succeeded
          [of "[''_schema'' \<mapsto> [''not matched, any of ['A', 'self']'']]"
              "[''not matched, any of ['A', 'self']'']"]
        merge_self_succeeded
          [of "[''_schema'' \<mapsto> [''satisfied both of ['A', 'B'], not only one'']]"
              "[''satisfied both of ['A', 'B'], not only one'']"]
  by simp

text \<open>
  After \<^verbatim>\<open>OneOfSchema.final_check\<close> the merge never meets a missing \<^verbatim>\<open>_schema\<close> key:
  with no successful alternative the \<^verbatim>\<open>not matched\<close> error is cleared (the base schema
  alone matched), with one the double match is reported, with several the ambiguity
  error stays.
\<close>

lemma oneOf_then_self_succeeded:
  assumes "OneOfSchema_final_check self data ss results errors compacted = Inr (v, e)"
  shows "merge_errors_one_for_include_self e None =
           (if compacted = [] then Inr Map.empty
            else if length compacted = 1 then
              Inr [''_schema'' \<mapsto> [''satisfied both of self and others, not only one'']]
            else Inr e)"
proof (cases "length compacted \<le> 1")
  case True
  then consider "compacted = []" | "length compacted = 1"
    by (cases compacted) auto
  then show ?thesis
  proof cases
    case 1
    with assms show ?thesis
      by (auto simp: OneOfSchema_final_check_def merge_errors_one_for_include_self_def
                     all_not_matched_def Let_def)
  next
    case 2
    with assms show ?thesis
      by (auto simp: OneOfSchema_final_check_def merge_errors_one_for_include_self_def)
  qed
next
  case False
  with assms obtain names where
    "e = [''_schema'' \<mapsto> [''satisfied both of '' @ py_repr_list names @ '', not only one'']]"
    by (auto simp: OneOfSchema_final_check_def split: sum.splits)
  with False show ?thesis
    by (auto simp: merge_errors_one_for_include_self_def all_not_matched_def)
qed

text \<open>
  When the base schema failed: with no or one successful alternative the errors of
  \<^verbatim>\<open>OneOfSchema.final_check\<close> stay as they are, with several the errors of the base schema
  are added to the ambiguity error.
\<close>

lemma oneOf_then_self_failed:
  assumes "OneOfSchema_final_check self data ss results errors compacted = Inr (v, e)"
  shows "merge_errors_one_for_include_self e (Some se) =
           Inr (if length compacted \<le> 1 then e else e ++ se)"
proof (cases "length compacted \<le> 1")
  case True
  then consider "compacted = []" | "length compacted = 1"
    by (cases compacted) auto
  then have "all_not_matched e"
  proof cases
    case 1
    with assms show ?thesis
      by (auto simp: OneOfSchema_final_check_def all_not_matched_def Let_def)
  next
    case 2
    with assms show ?thesis
      by (auto simp: OneOfSchema_final_check_def all_not_matched_def)
  qed
  with True show ?thesis by (simp add: merge_errors_one_for_include_self_def)
next
  case False
  with assms obtain names where
    "e = [''_schema'' \<mapsto> [''satisfied both of '' @ py_repr_list names @ '', not only one'']]"
    by (auto simp: OneOfSchema_final_check_def split: sum.splits)
  with False show ?thesis
    by (simp add: merge_errors_one_for_include_self_def all_not_matched_def)
qed

end
